theory Spec2Isabelle
  imports Main "HOL-Library.Word" "HOL-Library.Log_Nat"
begin

unbundle bit_operations_syntax

section \<open>Bytes and files\<close>

text \<open>
  A binary file is the list of its bytes; a position in an open file is an index into
  that list. Python \<^verbatim>\<open>bytes\<close> literals are written as strings and turned into bytes.
\<close>

type_synonym byte = "8 word"

definition bytes_of :: "string \<Rightarrow> byte list" where
  "bytes_of s = map (\<lambda>c. of_nat (of_char c)) s"

definition nl :: byte where
  "nl = 10"

text \<open>
  \<^verbatim>\<open>bytes.strip()\<close> without argument removes ASCII whitespace (space, tab, line feed,
  carriage return, vertical tab, form feed) from both ends.
\<close>

definition is_space :: "byte \<Rightarrow> bool" where
  "is_space b = (b = 32 \<or> b = 9 \<or> b = 10 \<or> b = 13 \<or> b = 11 \<or> b = 12)"

definition strip :: "byte list \<Rightarrow> byte list" where
  "strip bs = rev (dropWhile is_space (rev (dropWhile is_space bs)))"

definition end_header :: "byte list" where
  "end_header = bytes_of ''end_header''"

text \<open>
  \<^verbatim>\<open>f.readline()\<close> on a file opened in binary mode: the bytes from the current position
  up to and including the next line feed, or up to the end of the file when there is
  none; at the end of the file it is the empty byte string. The position advances by
  the length of what was read, and \<^verbatim>\<open>f.tell()\<close> is that position.
\<close>

definition readline :: "byte list \<Rightarrow> nat \<Rightarrow> byte list \<times> nat" where
  "readline fb pos =
     (let rest = drop pos fb;
          body = takeWhile (\<lambda>b. b \<noteq> nl) rest;
          line = (if length body < length rest then body @ [nl] else body)
      in (line, pos + length line))"

section \<open>The importer's header scan\<close>

text \<open>
  Lines 13 to 17 of the import script:
  \<^verbatim>\<open>
    line = b''
    while line.strip() != b'end_header':
        line = f.readline()
    header_end = f.tell()
  \<close>
  The loop has no exit at the end of the file, so it is a partial function: the value
  \<open>None\<close> is the run that never leaves the loop.
\<close>

partial_function (option) header_scan :: "byte list \<Rightarrow> nat \<Rightarrow> byte list \<Rightarrow> nat option" where
  "header_scan fb pos line =
     (if strip line = end_header then Some pos
      else (case readline fb pos of (line', pos') \<Rightarrow> header_scan fb pos' line'))"

declare header_scan.simps [code]

definition header_end :: "byte list \<Rightarrow> nat option" where
  "header_end fb = header_scan fb 0 []"

text \<open>
  The lines of a file as successive \<open>readline\<close> calls return them, each with its
  terminator, and the offset the scan reaches on a list of lines: the end of the first
  line whose stripped content is the sentinel.
\<close>

fun split_lines :: "byte list \<Rightarrow> byte list list" where
  "split_lines [] = []"
| "split_lines (b # bs) =
     (if b = nl then [nl] # split_lines bs
      else (case split_lines bs of [] \<Rightarrow> [[b]] | l # ls \<Rightarrow> (b # l) # ls))"

fun scan_lines :: "nat \<Rightarrow> byte list list \<Rightarrow> nat option" where
  "scan_lines pos [] = None"
| "scan_lines pos (l # ls) =
     (if strip l = end_header then Some (pos + length l) else scan_lines (pos + length l) ls)"

text \<open>A complete line of a file: it ends with its line feed and has no other.\<close>

definition is_line :: "byte list \<Rightarrow> bool" where
  "is_line l = (l \<noteq> [] \<and> last l = nl \<and> nl \<notin> set (butlast l))"

section \<open>The record layout and the record parser\<close>

text \<open>
  Lines 20 to 24 of the import script declare the numpy record type: three
  little-endian 32-bit floats, three unsigned bytes, three little-endian 32-bit floats,
  packed without padding. A 32-bit float is kept as its bit pattern: reading a field
  does no arithmetic. The fields carry the prefix \<open>pt_\<close>, since \<open>x\<close>, \<open>y\<close> and \<open>z\<close>
  are wanted as variable names.
\<close>

type_synonym f32 = "32 word"

record point =
  pt_x :: f32
  pt_y :: f32
  pt_z :: f32
  pt_red :: byte
  pt_green :: byte
  pt_blue :: byte
  pt_vx :: f32
  pt_vy :: f32
  pt_vz :: f32

definition itemsize :: nat where
  "itemsize = 27"

text \<open>The type code \<^verbatim>\<open><f4\<close>: four bytes, least significant first.\<close>

definition le_f4 :: "byte list \<Rightarrow> f32" where
  "le_f4 bs = ucast (bs ! 0) OR push_bit 8 (ucast (bs ! 1))
                OR push_bit 16 (ucast (bs ! 2)) OR push_bit 24 (ucast (bs ! 3))"

definition decode_point :: "byte list \<Rightarrow> point" where
  "decode_point bs =
     \<lparr> pt_x = le_f4 (take 4 bs),
       pt_y = le_f4 (take 4 (drop 4 bs)),
       pt_z = le_f4 (take 4 (drop 8 bs)),
       pt_red = bs ! 12,
       pt_green = bs ! 13,
       pt_blue = bs ! 14,
       pt_vx = le_f4 (take 4 (drop 15 bs)),
       pt_vy = le_f4 (take 4 (drop 19 bs)),
       pt_vz = le_f4 (take 4 (drop 23 bs)) \<rparr>"

text \<open>
  \<^verbatim>\<open>np.fromfile(f, dtype=dt)\<close> is numpy's, not this repository's, and is modelled by
  what numpy does: on a binary file, with no count given, it takes the number of whole
  items that fit between the current position and the end of the file, and reads that
  many, item \<open>i\<close> from the \<open>itemsize\<close> bytes at \<open>pos + i * itemsize\<close>. It raises
  nothing when bytes remain, and the script checks nothing either.
\<close>

definition np_fromfile :: "byte list \<Rightarrow> nat \<Rightarrow> point list" where
  "np_fromfile fb pos =
     (let n = (length fb - pos) div itemsize
      in map (\<lambda>i. decode_point (take itemsize (drop (pos + i * itemsize) fb))) [0..<n])"

text \<open>
  Lines 13 to 31 together: scan the header, seek to its end, read the records.
  \<open>None\<close> is the scan that does not return.
\<close>

definition load_points :: "byte list \<Rightarrow> point list option" where
  "load_points fb =
     (case header_end fb of None \<Rightarrow> None | Some h \<Rightarrow> Some (np_fromfile fb h))"

text \<open>
  The layout in the specification's words, as an encoder: 12 bytes of little-endian
  float32 \<open>x, y, z\<close>, 3 bytes \<open>r, g, b\<close>, 12 bytes of little-endian float32
  \<open>vx, vy, vz\<close>, no padding. It is what a well-formed file is made of.
\<close>

definition spec_encode_f4 :: "f32 \<Rightarrow> byte list" where
  "spec_encode_f4 w = [ucast w, ucast (drop_bit 8 w), ucast (drop_bit 16 w), ucast (drop_bit 24 w)]"

definition spec_encode_point :: "point \<Rightarrow> byte list" where
  "spec_encode_point p =
     spec_encode_f4 (pt_x p) @ spec_encode_f4 (pt_y p) @ spec_encode_f4 (pt_z p)
     @ [pt_red p, pt_green p, pt_blue p]
     @ spec_encode_f4 (pt_vx p) @ spec_encode_f4 (pt_vy p) @ spec_encode_f4 (pt_vz p)"

definition ply_header :: "byte list" where
  "ply_header = bytes_of ''ply\<newline>format binary_little_endian 1.0\<newline>end_header\<newline>''"

section \<open>Errors\<close>

text \<open>The exceptions the two scripts can end with; none of them is caught.\<close>

datatype error =
  FileNotFoundError | IndexError | ValueError | KeyError | TypeError | RuntimeError | ReferenceError
  | PlyParseError

section \<open>Floating-point values of the colour computation\<close>

text \<open>
  The colour channels are the only place where the import script computes with floats:
  \<^verbatim>\<open>data['red'] / 255.0\<close> divides in float64 and \<^verbatim>\<open>.astype(np.float32)\<close> rounds to
  float32. A float is modelled by the rational number it denotes, and an operation by
  the exact result rounded to the nearest value of the format, ties to even, as
  IEEE 754 prescribes. \<open>round_float p emin\<close> rounds to \<open>p\<close> significant bits with least
  exponent \<open>emin\<close> (below it the spacing stays that of the least binade, the subnormal
  numbers). Overflow to infinity is left out: every value rounded here lies between
  0 and 1.
\<close>

definition round_half_even :: "rat \<Rightarrow> int" where
  "round_half_even q =
     (let f = \<lfloor>q\<rfloor>; d = q - of_int f
      in if d < 1 / 2 then f else if 1 / 2 < d then f + 1 else if even f then f else f + 1)"

definition binade :: "rat \<Rightarrow> int" where
  "binade q =
     (case quotient_of \<bar>q\<bar> of (a, b) \<Rightarrow>
        (let k = bitlen a - bitlen b in if 2 powi k \<le> \<bar>q\<bar> then k else k - 1))"

definition round_float :: "nat \<Rightarrow> int \<Rightarrow> rat \<Rightarrow> rat" where
  "round_float p emin q =
     (if q = 0 then 0
      else (let e = max (binade q) emin; ulp = 2 powi (e - int p + 1)
            in of_int (round_half_even (q / ulp)) * ulp))"

definition float64 :: "rat \<Rightarrow> rat" where
  "float64 = round_float 53 (- 1022)"

definition float32 :: "rat \<Rightarrow> rat" where
  "float32 = round_float 24 (- 126)"

text \<open>
  \<^verbatim>\<open>data['red'] / 255.0\<close>: an array of unsigned bytes divided by a Python float gives a
  float64 array, element by element. \<^verbatim>\<open>np.ones(n)\<close> is \<open>n\<close> times the float64 1.0.
\<close>

definition np_divide_u1 :: "byte list \<Rightarrow> rat \<Rightarrow> rat list" where
  "np_divide_u1 col d = map (\<lambda>v. float64 (of_nat (unat v) / d)) col"

definition np_ones :: "nat \<Rightarrow> rat list" where
  "np_ones n = replicate n 1"

text \<open>
  \<^verbatim>\<open>np.stack(cols, axis=1)\<close>: the columns become the rows' entries; numpy raises
  ValueError on an empty list of columns and on columns of different lengths.
\<close>

definition np_stack_axis1 :: "'a list list \<Rightarrow> error + 'a list list" where
  "np_stack_axis1 cols =
     (if cols = [] \<or> (\<exists>c\<in>set cols. length c \<noteq> length (hd cols)) then Inl ValueError
      else Inr (map (\<lambda>i. map (\<lambda>c. c ! i) cols) [0..<length (hd cols)]))"

text \<open>Lines 50 to 55: the colour rows, red, green, blue and alpha, as float32.\<close>

definition colors :: "point list \<Rightarrow> error + rat list list" where
  "colors data =
     (case np_stack_axis1
             [np_divide_u1 (map pt_red data) 255,
              np_divide_u1 (map pt_green data) 255,
              np_divide_u1 (map pt_blue data) 255,
              np_ones (length data)] of
        Inl e \<Rightarrow> Inl e
      | Inr rows \<Rightarrow> Inr (map (map float32) rows))"

text \<open>Line 43: the position rows.\<close>

definition positions :: "point list \<Rightarrow> error + f32 list list" where
  "positions data = np_stack_axis1 [map pt_x data, map pt_y data, map pt_z data]"

text \<open>
  Line 44: \<^verbatim>\<open>positions.tolist()\<close> turns each float32 into a Python float, which is a
  float64, and the mesh stores the vertex coordinates as float32 again. Every number
  and both infinities come back with the bits they had. A NaN (exponent bits all set,
  fraction not zero) comes back as a quiet NaN: the conversion sets the top bit of the
  fraction, bit 22, and keeps the sign and the other fraction bits. A Python float that
  came from a float32 is written here as the float32 the mesh stores for it.
\<close>

definition is_nan_f4 :: "f32 \<Rightarrow> bool" where
  "is_nan_f4 w = (w AND 0x7F800000 = 0x7F800000 \<and> w AND 0x007FFFFF \<noteq> 0)"

definition via_python_float :: "f32 \<Rightarrow> f32" where
  "via_python_float w = (if is_nan_f4 w then w OR 0x00400000 else w)"

definition tolist :: "f32 list list \<Rightarrow> f32 list list" where
  "tolist rows = map (map via_python_float) rows"

text \<open>
  The colour derivation in the specification's words: the channel value divided by 255.
\<close>

definition spec_channel :: "byte \<Rightarrow> rat" where
  "spec_channel v = float32 (float64 (of_nat (unat v) / 255))"

section \<open>The host scene\<close>

text \<open>
  Modelled from the spec: the host API boundary (Blender's \<^verbatim>\<open>bpy\<close>) is not part of the
  repository. The spec asks of it a named scene-object store with lookup by name and
  removal, a mesh constructor taking a geometry-only vertex list, and a per-point
  attribute store of named float and float-vector attributes whose size is the vertex
  count. An object refers to its mesh by the mesh's name in the mesh store, so that
  what the script later writes into the mesh is what the object carries. A name that
  is free is given as asked; what the host picks when the name is taken is the
  parameter \<open>rename\<close>.
\<close>

datatype attr_data =
  FLOAT_VECTOR "f32 list list" | FLOAT_COLOR "rat list list" | FLOAT "f32 list"

record mesh =
  attributes :: "(string \<times> attr_data) list"
  edges :: "(nat \<times> nat) list"
  faces :: "nat list list"

record object =
  ob_data :: string
  ob_linked :: bool

record host =
  meshes :: "string \<rightharpoonup> mesh"
  objects :: "string \<rightharpoonup> object"

type_synonym renaming = "string \<Rightarrow> (string \<Rightarrow> bool) \<Rightarrow> string"

type_synonym 'a result = "(error + 'a) \<times> host"

definition then_do :: "'a result \<Rightarrow> ('a \<Rightarrow> host \<Rightarrow> 'b result) \<Rightarrow> 'b result" where
  "then_do r f = (case r of (Inl e, h) \<Rightarrow> (Inl e, h) | (Inr a, h) \<Rightarrow> f a h)"

definition free_name :: "renaming \<Rightarrow> string \<Rightarrow> (string \<Rightarrow> bool) \<Rightarrow> string" where
  "free_name rename name used = (if used name then rename name used else name)"

definition attr_len :: "attr_data \<Rightarrow> nat" where
  "attr_len a = (case a of FLOAT_VECTOR d \<Rightarrow> length d | FLOAT_COLOR d \<Rightarrow> length d | FLOAT d \<Rightarrow> length d)"

definition vertex_count :: "mesh \<Rightarrow> nat" where
  "vertex_count m = (case map_of (attributes m) ''position'' of Some a \<Rightarrow> attr_len a | None \<Rightarrow> 0)"

text \<open>\<^verbatim>\<open>bpy.data.objects.remove(ob, do_unlink=True)\<close>: the object leaves the store and the scene.\<close>

definition objects_remove :: "string \<Rightarrow> host \<Rightarrow> host" where
  "objects_remove name h = h\<lparr>objects := (objects h)(name := None)\<rparr>"

text \<open>\<^verbatim>\<open>bpy.data.meshes.new(name)\<close>: an empty mesh; the name it got is returned.\<close>

definition meshes_new :: "renaming \<Rightarrow> string \<Rightarrow> host \<Rightarrow> string \<times> host" where
  "meshes_new rename name h =
     (let nm = free_name rename name (\<lambda>k. meshes h k \<noteq> None)
      in (nm, h\<lparr>meshes := (meshes h)(nm \<mapsto> \<lparr>attributes = [], edges = [], faces = []\<rparr>)\<rparr>))"

text \<open>\<^verbatim>\<open>bpy.data.objects.new(name, mesh)\<close>: an object on that mesh, not yet in the scene.\<close>

definition objects_new :: "renaming \<Rightarrow> string \<Rightarrow> string \<Rightarrow> host \<Rightarrow> string \<times> host" where
  "objects_new rename name mname h =
     (let nm = free_name rename name (\<lambda>k. objects h k \<noteq> None)
      in (nm, h\<lparr>objects := (objects h)(nm \<mapsto> \<lparr>ob_data = mname, ob_linked = False\<rparr>)\<rparr>))"

text \<open>\<^verbatim>\<open>scene.collection.objects.link(ob)\<close>: the host refuses an object that is linked already.\<close>

definition collection_link :: "string \<Rightarrow> host \<Rightarrow> unit result" where
  "collection_link oname h =
     (case objects h oname of
        None \<Rightarrow> (Inl ReferenceError, h)
      | Some ob \<Rightarrow>
          if ob_linked ob then (Inl RuntimeError, h)
          else (Inr (), h\<lparr>objects := (objects h)(oname \<mapsto> ob\<lparr>ob_linked := True\<rparr>)\<rparr>))"

text \<open>A change to the mesh of the given name, in the mesh store.\<close>

definition on_mesh :: "string \<Rightarrow> (mesh \<Rightarrow> error + mesh) \<Rightarrow> host \<Rightarrow> unit result" where
  "on_mesh mname f h =
     (case meshes h mname of
        None \<Rightarrow> (Inl ReferenceError, h)
      | Some m \<Rightarrow>
          (case f m of
             Inl e \<Rightarrow> (Inl e, h)
           | Inr m' \<Rightarrow> (Inr (), h\<lparr>meshes := (meshes h)(mname \<mapsto> m')\<rparr>)))"

text \<open>
  \<^verbatim>\<open>mesh.from_pydata(vertices, [], [])\<close>: the vertices become the mesh's position
  attribute; a vertex that is not three numbers is refused. No edges, no faces.
\<close>

definition from_pydata :: "f32 list list \<Rightarrow> mesh \<Rightarrow> error + mesh" where
  "from_pydata verts m =
     (if \<exists>v\<in>set verts. length v \<noteq> 3 then Inl ValueError
      else Inr (m\<lparr>attributes := attributes m @ [(''position'', FLOAT_VECTOR verts)],
                  edges := [], faces := []\<rparr>))"

text \<open>
  \<^verbatim>\<open>mesh.attributes.new(name, type, 'POINT')\<close>: a new attribute with one zero entry per
  vertex, under the name asked for when it is free.
\<close>

definition attributes_new :: "renaming \<Rightarrow> string \<Rightarrow> string \<Rightarrow> mesh \<Rightarrow> error + string \<times> mesh" where
  "attributes_new rename name ty m =
     (let nm = free_name rename name (\<lambda>k. map_of (attributes m) k \<noteq> None);
          n = vertex_count m
      in if ty = ''FLOAT_COLOR'' then
           Inr (nm, m\<lparr>attributes := attributes m @ [(nm, FLOAT_COLOR (replicate n [0, 0, 0, 0]))]\<rparr>)
         else if ty = ''FLOAT'' then
           Inr (nm, m\<lparr>attributes := attributes m @ [(nm, FLOAT (replicate n 0))]\<rparr>)
         else Inl TypeError)"

definition set_attribute :: "string \<Rightarrow> attr_data \<Rightarrow> mesh \<Rightarrow> mesh" where
  "set_attribute aname a m =
     m\<lparr>attributes := map (\<lambda>(k, v). if k = aname then (k, a) else (k, v)) (attributes m)\<rparr>"

text \<open>
  \<^verbatim>\<open>attr.data.foreach_set("color", seq)\<close> takes a flat sequence of four floats per entry,
  \<^verbatim>\<open>attr.data.foreach_set("value", seq)\<close> one float per entry; the host refuses a
  sequence of another length.
\<close>

definition foreach_set_color :: "string \<Rightarrow> rat list \<Rightarrow> mesh \<Rightarrow> error + mesh" where
  "foreach_set_color aname flat m =
     (case map_of (attributes m) aname of
        Some (FLOAT_COLOR d) \<Rightarrow>
          if length flat = 4 * length d
          then Inr (set_attribute aname
                 (FLOAT_COLOR (map (\<lambda>i. take 4 (drop (4 * i) flat)) [0..<length d])) m)
          else Inl RuntimeError
      | _ \<Rightarrow> Inl TypeError)"

definition foreach_set_value :: "string \<Rightarrow> f32 list \<Rightarrow> mesh \<Rightarrow> error + mesh" where
  "foreach_set_value aname arr m =
     (case map_of (attributes m) aname of
        Some (FLOAT d) \<Rightarrow>
          if length arr = length d then Inr (set_attribute aname (FLOAT arr) m)
          else Inl RuntimeError
      | _ \<Rightarrow> Inl TypeError)"

section \<open>The import script\<close>

text \<open>Lines 8 and 9: an object named PointCloud, when there is one, is removed.\<close>

definition remove_existing :: "host \<Rightarrow> host" where
  "remove_existing h =
     (if objects h ''PointCloud'' \<noteq> None then objects_remove ''PointCloud'' h else h)"

text \<open>
  Lines 49 to 56: the colour attribute. \<^verbatim>\<open>colors.ravel()\<close> is the rows one after the other.
\<close>

definition add_color_attribute :: "renaming \<Rightarrow> point list \<Rightarrow> mesh \<Rightarrow> error + mesh" where
  "add_color_attribute rename data m =
     (case attributes_new rename ''color'' ''FLOAT_COLOR'' m of
        Inl e \<Rightarrow> Inl e
      | Inr (color_attr, m1) \<Rightarrow>
          (case colors data of
             Inl e \<Rightarrow> Inl e
           | Inr cs \<Rightarrow> foreach_set_color color_attr (concat cs) m1))"

text \<open>
  Lines 59 to 61: one float attribute per velocity component. The array is float32
  already, so \<^verbatim>\<open>arr.astype(np.float32)\<close> is a copy of it.
\<close>

fun add_velocity_attributes :: "renaming \<Rightarrow> (string \<times> f32 list) list \<Rightarrow> mesh \<Rightarrow> error + mesh" where
  "add_velocity_attributes rename [] m = Inr m"
| "add_velocity_attributes rename ((name, arr) # rest) m =
     (case attributes_new rename name ''FLOAT'' m of
        Inl e \<Rightarrow> Inl e
      | Inr (attr, m1) \<Rightarrow>
          (case foreach_set_value attr arr m1 of
             Inl e \<Rightarrow> Inl e
           | Inr m2 \<Rightarrow> add_velocity_attributes rename rest m2))"

text \<open>
  Lines 31 to 61, on the records read. The texts printed are left out, but not the
  reads of the first record that lines 33 to 35 print: they raise IndexError when
  there is no record. Then the mesh and the object are made and linked, the vertices
  set from \<^verbatim>\<open>positions.tolist()\<close>, and the attributes added.
\<close>

definition build_point_cloud :: "renaming \<Rightarrow> point list \<Rightarrow> host \<Rightarrow> unit result" where
  "build_point_cloud rename data h =
     (let n = length data in
      if n = 0 then (Inl IndexError, h)
      else
        (case meshes_new rename ''PointCloudMesh'' h of (mname, h1) \<Rightarrow>
         case objects_new rename ''PointCloud'' mname h1 of (oname, h2) \<Rightarrow>
           then_do (collection_link oname h2) (\<lambda>_ h3.
           then_do (case positions data of Inl e \<Rightarrow> (Inl e, h3) | Inr ps \<Rightarrow> on_mesh mname (from_pydata (tolist ps)) h3) (\<lambda>_ h4.
           then_do (on_mesh mname (add_color_attribute rename data) h4) (\<lambda>_ h5.
           on_mesh mname
             (add_velocity_attributes rename
                [(''vx'', map pt_vx data), (''vy'', map pt_vy data), (''vz'', map pt_vz data)]) h5)))))"

text \<open>
  The whole script, on the content of the file at the configured path (\<open>None\<close> when
  it cannot be opened) and the host's state. The result \<open>None\<close> is the run that never
  leaves the header scan.
\<close>

definition import_script :: "renaming \<Rightarrow> byte list option \<Rightarrow> host \<Rightarrow> unit result option" where
  "import_script rename content h =
     (let h0 = remove_existing h in
      case content of
        None \<Rightarrow> Some (Inl FileNotFoundError, h0)
      | Some fb \<Rightarrow>
          (case header_end fb of
             None \<Rightarrow> None
           | Some he \<Rightarrow> Some (build_point_cloud rename (np_fromfile fb he) h0)))"

section \<open>The inspector script\<close>

text \<open>
  What the inspector does to the outside is a sequence of events: a text printed, or the
  file opened by \<^verbatim>\<open>PlyData.read\<close>. It ends by running to its last line, by
  \<^verbatim>\<open>sys.exit\<close> with a status, or with an exception that nothing catches.
\<close>

datatype event = Print string | Open_file string

datatype ending = Finished | Exit int | Raised error

text \<open>
  Modelled from the spec: Python's \<^verbatim>\<open>int\<close> and \<^verbatim>\<open>str\<close> and the \<^verbatim>\<open>plyfile\<close> package are
  not part of the repository, so they are parameters: \<open>int_of_str\<close> is \<^verbatim>\<open>int(s)\<close>, with
  \<open>None\<close> for the ValueError it raises on a text that is no integer; \<open>str_of_int\<close> is
  how an f-string writes an integer; \<open>PlyData_read\<close> parses the file of a name into
  its elements, each with the field layout and the records of its data, or raises;
  \<open>str_of_dtype\<close> and \<open>str_of_record\<close> are the texts \<^verbatim>\<open>print\<close> writes for a layout and
  for a record.
\<close>

record ('t, 'v) library =
  int_of_str :: "string \<Rightarrow> int option"
  str_of_int :: "int \<Rightarrow> string"
  PlyData_read :: "string \<Rightarrow> error + (string \<rightharpoonup> 't \<times> 'v list)"
  str_of_dtype :: "'t \<Rightarrow> string"
  str_of_record :: "'v \<Rightarrow> string"

text \<open>
  The slice \<^verbatim>\<open>xs[:k]\<close>: the first \<open>k\<close> entries, all of them when \<open>k\<close> is beyond the
  length; a negative \<open>k\<close> counts from the end.
\<close>

definition slice_to :: "int \<Rightarrow> 'a list \<Rightarrow> 'a list" where
  "slice_to k xs = (if 0 \<le> k then take (nat k) xs else take (nat (int (length xs) + k)) xs)"

definition usage :: string where
  "usage = ''Usage: python read_ply.py <filename> [num_lines]''"

definition inspector :: "('t, 'v) library \<Rightarrow> string list \<Rightarrow> event list \<times> ending" where
  "inspector lib argv =
     (if length argv < 2 then ([Print usage], Exit 1)
      else
        (let filename = argv ! 1 in
         case (if length argv > 2 then int_of_str lib (argv ! 2) else Some 5) of
           None \<Rightarrow> ([], Raised ValueError)
         | Some num_line \<Rightarrow>
             (let out1 = [Print (''Reading: '' @ filename), Open_file filename] in
              case PlyData_read lib filename of
                Inl e \<Rightarrow> (out1, Raised e)
              | Inr ply \<Rightarrow>
                  (let out2 = out1 @ [Print ''\<newline>=== Vertex data type ===''] in
                   case ply ''vertex'' of
                     None \<Rightarrow> (out2, Raised KeyError)
                   | Some (dtype, data) \<Rightarrow>
                       (out2 @ [Print (str_of_dtype lib dtype),
                                Print (''\<newline>=== First '' @ str_of_int lib num_line @ '' vertices ==='')]
                             @ map (\<lambda>v. Print (str_of_record lib v)) (slice_to num_line data),
                        Finished)))))"

text \<open>The events before the record lines of a run that reaches them.\<close>

definition preamble :: "('t, 'v) library \<Rightarrow> string \<Rightarrow> 't \<Rightarrow> int \<Rightarrow> event list" where
  "preamble lib filename dtype num_line =
     [Print (''Reading: '' @ filename), Open_file filename,
      Print ''\<newline>=== Vertex data type ==='', Print (str_of_dtype lib dtype),
      Print (''\<newline>=== First '' @ str_of_int lib num_line @ '' vertices ==='')]"

text \<open>
  A library to run the inspector on: integers written in decimal with an optional
  minus sign, and one file, \<^verbatim>\<open>ten.ply\<close>, whose vertex element has ten records.
\<close>

definition digit_value :: "char \<Rightarrow> nat option" where
  "digit_value c =
     (let k = (of_char c :: nat) in if 48 \<le> k \<and> k \<le> 57 then Some (k - 48) else None)"

fun decimal_value :: "nat \<Rightarrow> string \<Rightarrow> nat option" where
  "decimal_value acc [] = Some acc"
| "decimal_value acc (c # cs) =
     (case digit_value c of None \<Rightarrow> None | Some d \<Rightarrow> decimal_value (10 * acc + d) cs)"

definition sample_int_of_str :: "string \<Rightarrow> int option" where
  "sample_int_of_str s =
     (case s of
        [] \<Rightarrow> None
      | c # cs \<Rightarrow>
          if c = CHR ''-'' then (if cs = [] then None else map_option (\<lambda>n. - int n) (decimal_value 0 cs))
          else map_option int (decimal_value 0 s))"

fun str_of_nat :: "nat \<Rightarrow> string" where
  "str_of_nat n =
     (if n < 10 then [char_of (48 + n)] else str_of_nat (n div 10) @ [char_of (48 + n mod 10)])"

definition sample_str_of_int :: "int \<Rightarrow> string" where
  "sample_str_of_int k = (if k < 0 then CHR ''-'' # str_of_nat (nat (- k)) else str_of_nat (nat k))"

definition sample_library :: "(string, nat) library" where
  "sample_library =
     \<lparr> int_of_str = sample_int_of_str,
       str_of_int = sample_str_of_int,
       PlyData_read = (\<lambda>name. if name = ''ten.ply''
                                then Inr [''vertex'' \<mapsto> (''dtype'', [0, 1, 2, 3, 4, 5, 6, 7, 8, 9])]
                                else Inl FileNotFoundError),
       str_of_dtype = (\<lambda>t. t),
       str_of_record = (\<lambda>v. CHR ''v'' # str_of_nat v) \<rparr>"

section \<open>Sample inputs\<close>

text \<open>
  A file of the sample header and 28 more bytes, a header without the sentinel, three
  records with distinct values, a record whose coordinates are two signalling NaNs and
  an infinity, and a host scene that holds a PointCloud object from an earlier run.
\<close>

definition misaligned_file :: "byte list" where
  "misaligned_file = ply_header @ replicate 28 0"

definition headerless_file :: "byte list" where
  "headerless_file = bytes_of ''ply\<newline>format binary_little_endian 1.0\<newline>''"

definition sample_points :: "point list" where
  "sample_points =
     [\<lparr>pt_x = 0x3F800000, pt_y = 0x40000000, pt_z = 0x40400000,
       pt_red = 0, pt_green = 128, pt_blue = 255,
       pt_vx = 0x3DCCCCCD, pt_vy = 0x3E4CCCCD, pt_vz = 0x3E99999A\<rparr>,
      \<lparr>pt_x = 0x40800000, pt_y = 0x40A00000, pt_z = 0x40C00000,
       pt_red = 10, pt_green = 20, pt_blue = 30,
       pt_vx = 0xBF800000, pt_vy = 0xC0000000, pt_vz = 0xC0400000\<rparr>,
      \<lparr>pt_x = 0x40E00000, pt_y = 0x41000000, pt_z = 0x41100000,
       pt_red = 255, pt_green = 254, pt_blue = 1,
       pt_vx = 0x00000000, pt_vy = 0x3F000000, pt_vz = 0x7F7FFFFF\<rparr>]"

definition nan_points :: "point list" where
  "nan_points =
     [\<lparr>pt_x = 0x7FA00001, pt_y = 0xFF800001, pt_z = 0x7F800000,
       pt_red = 1, pt_green = 2, pt_blue = 3,
       pt_vx = 0x7FA00001, pt_vy = 0x00000000, pt_vz = 0x80000000\<rparr>]"

definition sample_file :: "byte list" where
  "sample_file = ply_header @ concat (map spec_encode_point sample_points)"

definition sample_rename :: renaming where
  "sample_rename name used = name @ ''.001''"

definition sample_host :: host where
  "sample_host =
     \<lparr> meshes = [''PointCloudMesh'' \<mapsto> \<lparr>attributes = [], edges = [], faces = []\<rparr>],
       objects = [''PointCloud'' \<mapsto> \<lparr>ob_data = ''PointCloudMesh'', ob_linked = True\<rparr>,
                  ''Camera'' \<mapsto> \<lparr>ob_data = ''CameraData'', ob_linked = True\<rparr>] \<rparr>"

section \<open>The scene an import leaves\<close>

text \<open>
  What the specification expects of an import of the records \<open>data\<close>, in its words: one
  geometry attribute and four custom per-point attributes, each with one entry per
  record, entry \<open>i\<close> made from record \<open>i\<close>; the position entry is the three
  coordinates as they come back from the Python floats, the colour entry is the three
  channels divided by 255 and the alpha 1, and the velocity entries are the float32
  values themselves. The object of the known name refers to the mesh that carries
  them; the mesh has the name the host gave it.
\<close>

definition point_cloud_attributes :: "point list \<Rightarrow> (string \<times> attr_data) list" where
  "point_cloud_attributes data =
     [(''position'', FLOAT_VECTOR (map (\<lambda>p. [via_python_float (pt_x p), via_python_float (pt_y p),
                                              via_python_float (pt_z p)]) data)),
      (''color'', FLOAT_COLOR (map (\<lambda>p. [spec_channel (pt_red p), spec_channel (pt_green p),
                                            spec_channel (pt_blue p), 1]) data)),
      (''vx'', FLOAT (map pt_vx data)),
      (''vy'', FLOAT (map pt_vy data)),
      (''vz'', FLOAT (map pt_vz data))]"

definition new_mesh_name :: "renaming \<Rightarrow> host \<Rightarrow> string" where
  "new_mesh_name rename h = free_name rename ''PointCloudMesh'' (\<lambda>k. meshes h k \<noteq> None)"

definition imported_scene :: "renaming \<Rightarrow> point list \<Rightarrow> host \<Rightarrow> host" where
  "imported_scene rename data h =
     h\<lparr>meshes := (meshes h)(new_mesh_name rename h \<mapsto>
                     \<lparr>attributes = point_cloud_attributes data, edges = [], faces = []\<rparr>),
       objects := (objects h)(''PointCloud'' \<mapsto>
                     \<lparr>ob_data = new_mesh_name rename h, ob_linked = True\<rparr>)\<rparr>"

section \<open>Properties of the header scan\<close>

text \<open>
  At the end of the file \<open>readline\<close> returns the empty byte string and the position
  stays, so a scan that has not met the sentinel there never returns.
\<close>

lemma readline_eof: "length fb \<le> pos \<Longrightarrow> readline fb pos = ([], pos)"
  by (simp add: readline_def)

lemma strip_Nil: "strip [] \<noteq> end_header"
  by (simp add: strip_def end_header_def bytes_of_def)

lemma header_scan_Some_not_eof:
  assumes "header_scan fb pos line = Some y"
  shows "strip line \<noteq> end_header \<longrightarrow> pos < length fb"
proof (rule header_scan.raw_induct
    [of "\<lambda>f p l r. strip l \<noteq> end_header \<longrightarrow> p < length f" fb pos line y])
  show "header_scan fb pos line = Some y" by (rule assms)
next
  fix scan' :: "byte list \<Rightarrow> nat \<Rightarrow> byte list \<Rightarrow> nat option" and f p l r
  assume IH: "\<And>f p l r. scan' f p l = Some r \<Longrightarrow> strip l \<noteq> end_header \<longrightarrow> p < length f"
    and step: "(if strip l = end_header then Some p
                else case readline f p of (line', pos') \<Rightarrow> scan' f pos' line') = Some r"
  show "strip l \<noteq> end_header \<longrightarrow> p < length f"
  proof (intro impI, rule ccontr)
    assume ne: "strip l \<noteq> end_header" and "\<not> p < length f"
    then have e: "length f \<le> p" by simp
    from step ne have "scan' f p [] = Some r"
      by (simp add: readline_eof [OF e])
    from IH [OF this] strip_Nil e show False by simp
  qed
qed

lemma header_scan_eof:
  "length fb \<le> pos \<Longrightarrow> strip line \<noteq> end_header \<Longrightarrow> header_scan fb pos line = None"
  using header_scan_Some_not_eof [of fb pos line] by (cases "header_scan fb pos line") auto

lemma split_lines_Nil_iff: "split_lines bs = [] \<longleftrightarrow> bs = []"
  by (cases bs) (auto split: list.splits)

lemma concat_split_lines: "concat (split_lines bs) = bs"
  by (induction bs) (auto split: list.splits)

lemma split_lines_first:
  "split_lines bs = l # ls \<Longrightarrow>
     (let body = takeWhile (\<lambda>b. b \<noteq> nl) bs in
        (if length body < length bs then body @ [nl] else body)) = l
     \<and> split_lines (drop (length l) bs) = ls \<and> l \<noteq> []"
proof (induction bs arbitrary: l ls)
  case Nil
  then show ?case by simp
next
  case (Cons b bs)
  show ?case
  proof (cases "b = nl")
    case True
    with Cons.prems show ?thesis by auto
  next
    case False
    show ?thesis
    proof (cases "split_lines bs")
      case Nil
      then have "bs = []" by (simp add: split_lines_Nil_iff)
      with Cons.prems False show ?thesis by auto
    next
      case (Cons l' ls')
      from Cons.IH [OF Cons] Cons Cons.prems False show ?thesis
        by (auto simp: Let_def split: if_splits)
    qed
  qed
qed

lemma header_scan_lines:
  "pos \<le> length fb \<Longrightarrow> strip line \<noteq> end_header \<Longrightarrow> split_lines (drop pos fb) = ls \<Longrightarrow>
   header_scan fb pos line = scan_lines pos ls"
proof (induction ls arbitrary: pos line)
  case Nil
  then have "length fb \<le> pos" by (simp add: split_lines_Nil_iff)
  with Nil show ?case by (simp add: header_scan_eof)
next
  case (Cons l ls)
  from split_lines_first [OF Cons.prems(3)]
  have rl: "readline fb pos = (l, pos + length l)"
    and rest: "split_lines (drop (pos + length l) fb) = ls"
    by (simp_all add: readline_def Let_def add.commute)
  have "length (concat (split_lines (drop pos fb))) = length fb - pos"
    by (simp add: concat_split_lines)
  with Cons.prems(3) have le: "pos + length l \<le> length fb"
    using Cons.prems(1) by simp
  show ?case
  proof (cases "strip l = end_header")
    case True
    then show ?thesis
      using Cons.prems(2) rl
      by (subst header_scan.simps, simp, subst header_scan.simps, simp)
  next
    case False
    from Cons.IH [OF le False rest] show ?thesis
      using Cons.prems(2) rl False by (subst header_scan.simps) simp
  qed
qed

lemma header_end_scan_lines: "header_end fb = scan_lines 0 (split_lines fb)"
  unfolding header_end_def by (rule header_scan_lines) (simp_all add: strip_Nil)

lemma split_lines_body: "nl \<notin> set b \<Longrightarrow> split_lines (b @ nl # r) = (b @ [nl]) # split_lines r"
  by (induction b) auto

lemma is_line_split: "is_line l \<Longrightarrow> split_lines (l @ r) = l # split_lines r"
proof -
  assume a: "is_line l"
  then have "l = butlast l @ [nl]" and "nl \<notin> set (butlast l)"
    by (auto simp: is_line_def dest: append_butlast_last_id)
  with split_lines_body [of "butlast l" r] show ?thesis
    by (metis append.assoc append_Cons append_Nil)
qed

lemma split_lines_concat:
  "\<forall>l\<in>set pre. is_line l \<Longrightarrow> split_lines (concat pre @ r) = pre @ split_lines r"
  by (induction pre) (simp_all add: is_line_split)

lemma scan_lines_append:
  "\<forall>l\<in>set pre. strip l \<noteq> end_header \<Longrightarrow>
   scan_lines pos (pre @ ms) = scan_lines (pos + length (concat pre)) ms"
  by (induction pre arbitrary: pos) (simp_all add: add.assoc)

lemma scan_lines_None: "\<forall>l\<in>set ls. strip l \<noteq> end_header \<Longrightarrow> scan_lines pos ls = None"
  by (induction ls arbitrary: pos) simp_all

lemma header_end_lines:
  assumes "\<forall>l\<in>set pre. is_line l \<and> strip l \<noteq> end_header"
    and "is_line s" and "strip s = end_header"
  shows "header_end (concat pre @ s @ rest) = Some (length (concat pre) + length s)"
proof -
  have "split_lines (concat pre @ s @ rest) = pre @ s # split_lines rest"
    using assms(1,2) by (simp add: split_lines_concat is_line_split)
  then show ?thesis
    using assms(1,3) by (simp add: header_end_scan_lines scan_lines_append)
qed

lemma ply_header_lines:
  "ply_header = concat [bytes_of ''ply\<newline>'', bytes_of ''format binary_little_endian 1.0\<newline>'']
                  @ bytes_of ''end_header\<newline>''"
  by (simp add: ply_header_def bytes_of_def)

lemma sample_lines:
  "\<forall>l\<in>set [bytes_of ''ply\<newline>'', bytes_of ''format binary_little_endian 1.0\<newline>''].
      is_line l \<and> strip l \<noteq> end_header"
  "is_line (bytes_of ''end_header\<newline>'')"
  "strip (bytes_of ''end_header\<newline>'') = end_header"
  by (simp_all add: is_line_def bytes_of_def strip_def is_space_def end_header_def nl_def)

lemma length_ply_header: "length ply_header = 47"
  by (simp add: ply_header_def bytes_of_def)

lemma header_end_ply_header: "header_end (ply_header @ rest) = Some 47"
proof -
  let ?pre = "[bytes_of ''ply\<newline>'', bytes_of ''format binary_little_endian 1.0\<newline>'']"
  let ?s = "bytes_of ''end_header\<newline>''"
  have e: "ply_header @ rest = concat ?pre @ ?s @ rest"
    by (simp add: ply_header_lines)
  have "header_end (ply_header @ rest) = Some (length (concat ?pre) + length ?s)"
    unfolding e by (rule header_end_lines [OF sample_lines])
  then show ?thesis
    by (simp add: bytes_of_def)
qed

text \<open>
  C3. For every file whose header ends with a line whose stripped content is
  \<^verbatim>\<open>end_header\<close>, the header scan returns the offset of the first byte after that
  line's terminator: with the lines before it written \<open>pre\<close>, none of them a sentinel
  line, and the sentinel line \<open>s\<close>, that offset is the length of \<open>pre\<close> and \<open>s\<close>
  together, whatever follows.
\<close>

theorem header_scan_returns_offset_after_sentinel:
  assumes "\<forall>l\<in>set pre. is_line l \<and> strip l \<noteq> end_header"
    and "is_line s" and "strip s = end_header"
  shows "header_end (concat pre @ s @ rest) = Some (length (concat pre) + length s)"
  using assms by (rule header_end_lines)

theorem header_scan_returns_offset_after_sentinel_witness:
  "list_all (\<lambda>l. is_line l \<and> strip l \<noteq> end_header)
     [bytes_of ''ply\<newline>'', bytes_of ''format binary_little_endian 1.0\<newline>'']
   \<and> is_line (bytes_of ''end_header\<newline>'')
   \<and> strip (bytes_of ''end_header\<newline>'') = end_header
   \<and> header_end (concat [bytes_of ''ply\<newline>'', bytes_of ''format binary_little_endian 1.0\<newline>'']
                    @ bytes_of ''end_header\<newline>'' @ [1, 2, 3]) = Some 47"
proof -
  have "header_end (concat [bytes_of ''ply\<newline>'', bytes_of ''format binary_little_endian 1.0\<newline>'']
                    @ bytes_of ''end_header\<newline>'' @ [1, 2, 3])
        = Some (length (concat [bytes_of ''ply\<newline>'', bytes_of ''format binary_little_endian 1.0\<newline>''])
                + length (bytes_of ''end_header\<newline>''))"
    by (rule header_scan_returns_offset_after_sentinel [OF sample_lines])
  then have "header_end (concat [bytes_of ''ply\<newline>'', bytes_of ''format binary_little_endian 1.0\<newline>'']
                    @ bytes_of ''end_header\<newline>'' @ [1, 2, 3]) = Some 47"
    by (simp add: bytes_of_def)
  with sample_lines show ?thesis by (simp add: list_all_iff)
qed

text \<open>
  C2. The claim asks for a malformed-file error on a file with no sentinel line. The
  loop of lines 15 and 16 has no exit at the end of the file: for every file none of
  whose lines strips to \<^verbatim>\<open>end_header\<close>, the header scan does not return, so no error
  is raised and no offset is produced.
\<close>

theorem header_scan_without_sentinel_never_returns:
  assumes "\<forall>l\<in>set (split_lines fb). strip l \<noteq> end_header"
  shows "header_end fb = None"
  using assms by (simp add: header_end_scan_lines scan_lines_None)

theorem header_scan_without_sentinel_never_returns_witness:
  "list_all (\<lambda>l. strip l \<noteq> end_header) (split_lines headerless_file)
   \<and> header_end headerless_file = None"
proof -
  have h: "\<forall>l\<in>set (split_lines headerless_file). strip l \<noteq> end_header"
    by (simp add: headerless_file_def bytes_of_def nl_def strip_def is_space_def end_header_def)
  from h header_scan_without_sentinel_never_returns [OF h] show ?thesis
    by (simp add: list_all_iff)
qed

section \<open>Properties of the record parser\<close>

lemma le_f4_encode: "le_f4 (spec_encode_f4 w) = w"
  unfolding le_f4_def spec_encode_f4_def
  apply (rule bit_word_eqI)
  subgoal for n
    apply (simp add: bit_or_iff bit_push_bit_iff bit_ucast_iff bit_drop_bit_eq)
    apply (cases "n < 8"; cases "n < 16"; cases "n < 24"; simp; arith)
    done
  done

lemma length_spec_encode_f4: "length (spec_encode_f4 w) = 4"
  by (simp add: spec_encode_f4_def)

lemma length_spec_encode_point: "length (spec_encode_point p) = itemsize"
  by (simp add: spec_encode_point_def length_spec_encode_f4 itemsize_def)

lemma decode_encode_point: "decode_point (spec_encode_point p) = p"
  by (simp add: decode_point_def spec_encode_point_def length_spec_encode_f4 le_f4_encode nth_append)

lemma decode_encode_point_take: "decode_point (take itemsize (spec_encode_point p @ bs)) = p"
  by (simp add: length_spec_encode_point decode_encode_point)

lemma take_drop_chunks:
  "\<forall>c\<in>set cs. length c = k \<Longrightarrow> i < length cs \<Longrightarrow> take k (drop (i * k) (concat cs)) = cs ! i"
proof (induction cs arbitrary: i)
  case Nil
  then show ?case by simp
next
  case (Cons c cs)
  show ?case
  proof (cases i)
    case 0
    with Cons.prems show ?thesis by simp
  next
    case (Suc j)
    with Cons.prems Cons.IH [of j] show ?thesis by simp
  qed
qed

lemma length_concat_chunks:
  "\<forall>c\<in>set cs. length c = k \<Longrightarrow> length (concat cs) = length cs * k"
  by (induction cs) auto

lemma np_fromfile_encode:
  "np_fromfile (hdr @ concat (map spec_encode_point ps)) (length hdr) = ps"
proof -
  let ?cs = "map spec_encode_point ps"
  have k: "\<forall>c\<in>set ?cs. length c = itemsize"
    by (simp add: length_spec_encode_point)
  have n: "(length (hdr @ concat ?cs) - length hdr) div itemsize = length ps"
    using length_concat_chunks [OF k] by (simp add: itemsize_def)
  have el: "decode_point (take itemsize (drop (i * itemsize) (concat ?cs))) = ps ! i"
    if "i < length ps" for i
    using take_drop_chunks [OF k, of i] that by (simp add: decode_encode_point)
  show ?thesis
    unfolding np_fromfile_def Let_def n
    by (rule nth_equalityI) (simp_all add: el)
qed

lemma length_np_fromfile: "length (np_fromfile fb h) = (length fb - h) div itemsize"
  by (simp add: np_fromfile_def)

lemma np_fromfile_nth:
  "i < (length fb - h) div itemsize \<Longrightarrow>
   np_fromfile fb h ! i = decode_point (take itemsize (drop (h + i * itemsize) fb))"
  by (simp add: np_fromfile_def)

lemma np_fromfile_in_bounds:
  assumes "i < (length fb - h) div itemsize"
  shows "h + (i + 1) * itemsize \<le> length fb"
proof -
  have "(i + 1) * itemsize \<le> ((length fb - h) div itemsize) * itemsize"
    using assms by (intro mult_le_mono1) simp
  also have "\<dots> \<le> length fb - h"
    by simp
  finally have "(i + 1) * itemsize \<le> length fb - h" .
  moreover have "0 < (i + 1) * itemsize"
    by (simp add: itemsize_def)
  ultimately show ?thesis by linarith
qed

lemma np_fromfile_truncate:
  "np_fromfile (take (h + ((length fb - h) div itemsize) * itemsize) fb) h = np_fromfile fb h"
proof (rule nth_equalityI)
  let ?n = "(length fb - h) div itemsize"
  let ?k = "h + ?n * itemsize"
  have nk: "(length (take ?k fb) - h) div itemsize = ?n"
  proof (cases "?n = 0")
    case True
    have "length (take ?k fb) - h \<le> length fb - h" by simp
    then have "(length (take ?k fb) - h) div itemsize \<le> ?n" by (rule div_le_mono)
    with True show ?thesis by simp
  next
    case False
    then have "0 < ?n" by simp
    from np_fromfile_in_bounds [of "?n - 1" fb h] this
    have "?k \<le> length fb" by simp
    then have "length (take ?k fb) = ?k" by simp
    then have "(length (take ?k fb) - h) div itemsize = (?n * itemsize) div itemsize"
      by (simp only: add_diff_cancel_left')
    also have "\<dots> = ?n" by (simp add: itemsize_def)
    finally show ?thesis .
  qed
  show "length (np_fromfile (take ?k fb) h) = length (np_fromfile fb h)"
    by (simp only: length_np_fromfile nk)
  fix i
  assume "i < length (np_fromfile (take ?k fb) h)"
  then have i: "i < ?n" by (simp only: length_np_fromfile nk)
  then have "(i + 1) * itemsize \<le> ?n * itemsize"
    by (intro mult_le_mono1) simp
  then have "take itemsize (drop (h + i * itemsize) (take ?k fb))
             = take itemsize (drop (h + i * itemsize) fb)"
    by (simp add: drop_take min_def)
  moreover from i nk have "i < (length (take ?k fb) - h) div itemsize"
    by (simp only:)
  ultimately show "np_fromfile (take ?k fb) h ! i = np_fromfile fb h ! i"
    using i by (simp only: np_fromfile_nth)
qed

lemma load_points_Some: "header_end fb = Some h \<Longrightarrow> load_points fb = Some (np_fromfile fb h)"
  by (simp add: load_points_def)

lemma misaligned_parse:
  "load_points misaligned_file = Some [decode_point (replicate 27 0)]"
proof -
  have "np_fromfile misaligned_file 47 = [decode_point (replicate 27 0)]"
    by (simp add: np_fromfile_def misaligned_file_def length_ply_header itemsize_def)
  with header_end_ply_header [of "replicate 28 0"] show ?thesis
    by (simp add: load_points_def misaligned_file_def)
qed

text \<open>
  C1, as the claim states it, fails: the sample header followed by 28 bytes leaves a
  record region that is no multiple of 27, and the import flow reads one record from
  it without any error, dropping the last byte.
\<close>

theorem misaligned_region_parses_counterexample:
  "header_end misaligned_file = Some 47
   \<and> (length misaligned_file - 47) mod itemsize = 1
   \<and> load_points misaligned_file = Some [decode_point (replicate 27 0)]"
  using header_end_ply_header [of "replicate 28 0"] misaligned_parse
  by (simp add: misaligned_file_def length_ply_header itemsize_def)

text \<open>
  C1, amended. For every file whose header scan returns \<open>h\<close>, the record parser raises
  no error: it yields the whole records that fit after the header, as many as the
  length of the region divided by 27, rounded down; record \<open>i\<close> is decoded from the 27
  bytes at \<open>h + 27 i\<close>, which lie inside the file, so nothing is read out of bounds;
  and the bytes that remain after the last whole record are ignored: the file cut
  after that record gives the same records.
\<close>

theorem record_parser_reads_whole_records:
  assumes "header_end fb = Some h"
  shows "load_points fb = Some (np_fromfile fb h)
         \<and> length (np_fromfile fb h) = (length fb - h) div itemsize
         \<and> (\<forall>i < length (np_fromfile fb h).
               h + (i + 1) * itemsize \<le> length fb
               \<and> np_fromfile fb h ! i = decode_point (take itemsize (drop (h + i * itemsize) fb)))
         \<and> np_fromfile (take (h + length (np_fromfile fb h) * itemsize) fb) h = np_fromfile fb h"
proof (intro conjI allI impI)
  show "load_points fb = Some (np_fromfile fb h)"
    using assms by (rule load_points_Some)
  show "length (np_fromfile fb h) = (length fb - h) div itemsize"
    by (rule length_np_fromfile)
  show "np_fromfile (take (h + length (np_fromfile fb h) * itemsize) fb) h = np_fromfile fb h"
    unfolding length_np_fromfile by (rule np_fromfile_truncate)
next
  fix i
  assume "i < length (np_fromfile fb h)"
  then have i: "i < (length fb - h) div itemsize"
    by (simp only: length_np_fromfile)
  show "h + (i + 1) * itemsize \<le> length fb"
    by (rule np_fromfile_in_bounds [OF i])
  show "np_fromfile fb h ! i = decode_point (take itemsize (drop (h + i * itemsize) fb))"
    by (rule np_fromfile_nth [OF i])
qed

theorem record_parser_reads_whole_records_witness:
  "header_end misaligned_file = Some 47
   \<and> load_points misaligned_file = Some (np_fromfile misaligned_file 47)
   \<and> length (np_fromfile misaligned_file 47) = 1
   \<and> 47 + 27 \<le> length misaligned_file
   \<and> np_fromfile misaligned_file 47 ! 0 = decode_point (take 27 (drop 47 misaligned_file))
   \<and> np_fromfile (take (47 + 27) misaligned_file) 47 = np_fromfile misaligned_file 47"
proof -
  have h: "header_end misaligned_file = Some 47"
    using header_end_ply_header [of "replicate 28 0"] by (simp add: misaligned_file_def)
  have n: "length (np_fromfile misaligned_file 47) = 1"
    by (simp add: length_np_fromfile misaligned_file_def length_ply_header itemsize_def)
  from record_parser_reads_whole_records [OF h] n h show ?thesis
    by (simp add: itemsize_def)
qed

text \<open>
  C4. For every file made of a header and the packed 27-byte encodings of \<open>n\<close> records
  (little-endian float32 \<open>x, y, z\<close>, bytes \<open>r, g, b\<close>, little-endian float32
  \<open>vx, vy, vz\<close>, no padding), whose header scan ends at the end of the header, the
  record parser yields exactly these \<open>n\<close> records, field for field and in order.
\<close>

theorem record_parser_round_trip:
  assumes "header_end (hdr @ concat (map spec_encode_point ps)) = Some (length hdr)"
  shows "load_points (hdr @ concat (map spec_encode_point ps)) = Some ps"
  using assms by (simp add: load_points_def np_fromfile_encode)

theorem record_parser_round_trip_witness:
  "header_end (ply_header @ concat (map spec_encode_point sample_points)) = Some (length ply_header)
   \<and> load_points (ply_header @ concat (map spec_encode_point sample_points)) = Some sample_points
   \<and> length sample_points = 3 \<and> distinct sample_points"
proof -
  have h: "header_end (ply_header @ concat (map spec_encode_point sample_points))
           = Some (length ply_header)"
    by (simp add: header_end_ply_header length_ply_header)
  from h record_parser_round_trip [OF h] show ?thesis
    by (simp add: sample_points_def)
qed

section \<open>Properties of the colour derivation\<close>

lemma binade_1: "binade 1 = 0"
  by (simp add: binade_def bitlen_def)

lemma float64_1: "float64 1 = 1"
  by (simp add: float64_def round_float_def binade_1 round_half_even_def Let_def power_int_minus)

lemma float32_1: "float32 1 = 1"
  by (simp add: float32_def round_float_def binade_1 round_half_even_def Let_def power_int_minus)

text \<open>The rounding agrees with the IEEE values of one third, 0x3FD5555555555555 and 0x3EAAAAAB.\<close>

lemma float64_third: "float64 (1 / 3) = 6004799503160661 / 2 ^ 54"
  by code_simp

lemma float32_third: "float32 (1 / 3) = 11184811 / 2 ^ 25"
  by code_simp

lemma float64_0: "float64 0 = 0"
  by (simp add: float64_def round_float_def)

lemma float32_0: "float32 0 = 0"
  by (simp add: float32_def round_float_def)

lemma np_stack_axis1_rows:
  "cols \<noteq> [] \<Longrightarrow> \<forall>c\<in>set cols. length c = n \<Longrightarrow>
   np_stack_axis1 cols = Inr (map (\<lambda>i. map (\<lambda>c. c ! i) cols) [0..<n])"
  by (cases cols) (auto simp: np_stack_axis1_def)

lemma colors_rows:
  "colors data = Inr (map (\<lambda>p. [spec_channel (pt_red p), spec_channel (pt_green p),
                                  spec_channel (pt_blue p), 1]) data)"
proof -
  let ?cols = "[np_divide_u1 (map pt_red data) 255, np_divide_u1 (map pt_green data) 255,
                np_divide_u1 (map pt_blue data) 255, np_ones (length data)]"
  have "np_stack_axis1 ?cols = Inr (map (\<lambda>i. map (\<lambda>c. c ! i) ?cols) [0..<length data])"
    by (rule np_stack_axis1_rows) (simp_all add: np_divide_u1_def np_ones_def)
  then have "colors data = Inr (map (map float32) (map (\<lambda>i. map (\<lambda>c. c ! i) ?cols) [0..<length data]))"
    by (simp add: colors_def)
  also have "map (map float32) (map (\<lambda>i. map (\<lambda>c. c ! i) ?cols) [0..<length data])
             = map (\<lambda>p. [spec_channel (pt_red p), spec_channel (pt_green p),
                            spec_channel (pt_blue p), 1]) data"
    by (rule nth_equalityI) (simp_all add: np_divide_u1_def np_ones_def spec_channel_def float32_1)
  finally show ?thesis .
qed

lemma positions_rows:
  "positions data = Inr (map (\<lambda>p. [pt_x p, pt_y p, pt_z p]) data)"
proof -
  let ?cols = "[map pt_x data, map pt_y data, map pt_z data]"
  have "np_stack_axis1 ?cols = Inr (map (\<lambda>i. map (\<lambda>c. c ! i) ?cols) [0..<length data])"
    by (rule np_stack_axis1_rows) simp_all
  moreover have "map (\<lambda>i. map (\<lambda>c. c ! i) ?cols) [0..<length data]
                 = map (\<lambda>p. [pt_x p, pt_y p, pt_z p]) data"
    by (rule nth_equalityI) simp_all
  ultimately show ?thesis by (simp add: positions_def)
qed

lemma spec_channel_0: "spec_channel 0 = 0"
  by (simp add: spec_channel_def float64_0 float32_0)

lemma spec_channel_255: "spec_channel 255 = 1"
  by (simp add: spec_channel_def float64_1 float32_1)

lemma sample_channels:
  "spec_channel 128 = 8421505 / 16777216"
  "spec_channel 10 = 10526881 / 268435456"
  "spec_channel 20 = 10526881 / 134217728"
  "spec_channel 30 = 15790321 / 134217728"
  "spec_channel 254 = 16711423 / 16777216"
  "spec_channel 1 = 8421505 / 2147483648"
  by code_simp+

text \<open>
  C5. For every list of parsed records, the colour rows the importer computes are, for
  each record in order, the red, green and blue channel each divided by 255 (in
  float64, then rounded to float32) and the alpha 1; channel value 0 gives exactly 0
  and channel value 255 gives exactly 1.
\<close>

theorem color_derivation:
  "colors data = Inr (map (\<lambda>p. [spec_channel (pt_red p), spec_channel (pt_green p),
                                  spec_channel (pt_blue p), 1]) data)
   \<and> spec_channel 0 = 0 \<and> spec_channel 255 = 1"
  by (simp add: colors_rows spec_channel_0 spec_channel_255)

theorem color_derivation_witness:
  "colors sample_points = Inr [[0, 8421505 / 16777216, 1, 1],
                               [10526881 / 268435456, 10526881 / 134217728, 15790321 / 134217728, 1],
                               [1, 16711423 / 16777216, 8421505 / 2147483648, 1]]
   \<and> spec_channel 0 = 0 \<and> spec_channel 255 = 1"
  using color_derivation [of sample_points]
  by (simp add: sample_points_def sample_channels)

section \<open>Properties of the import\<close>

lemma length_concat_rows4:
  "length (concat (map (\<lambda>p. [a p, b p, c p, d p]) data)) = 4 * length data"
  by (induction data) simp_all

lemma chunks4_concat:
  "map (\<lambda>i. take 4 (drop (4 * i) (concat (map (\<lambda>p. [a p, b p, c p, d p]) data)))) [0..<length data]
   = map (\<lambda>p. [a p, b p, c p, d p]) data"
proof (rule nth_equalityI)
  show "length (map (\<lambda>i. take 4 (drop (4 * i) (concat (map (\<lambda>p. [a p, b p, c p, d p]) data)))) [0..<length data])
        = length (map (\<lambda>p. [a p, b p, c p, d p]) data)"
    by simp
next
  fix i
  assume "i < length (map (\<lambda>i. take 4 (drop (4 * i) (concat (map (\<lambda>p. [a p, b p, c p, d p]) data)))) [0..<length data])"
  then have i: "i < length data" by simp
  have "take 4 (drop (i * 4) (concat (map (\<lambda>p. [a p, b p, c p, d p]) data)))
        = map (\<lambda>p. [a p, b p, c p, d p]) data ! i"
    by (rule take_drop_chunks) (use i in simp_all)
  with i show "map (\<lambda>i. take 4 (drop (4 * i) (concat (map (\<lambda>p. [a p, b p, c p, d p]) data)))) [0..<length data] ! i
               = map (\<lambda>p. [a p, b p, c p, d p]) data ! i"
    by (simp add: mult.commute)
qed

lemma tolist_rows:
  "tolist (map (\<lambda>p. [pt_x p, pt_y p, pt_z p]) data)
   = map (\<lambda>p. [via_python_float (pt_x p), via_python_float (pt_y p), via_python_float (pt_z p)]) data"
  by (simp add: tolist_def)

lemma from_pydata_rows:
  "from_pydata (map (\<lambda>p. [a p, b p, c p]) data) \<lparr>attributes = [], edges = [], faces = []\<rparr>
   = Inr \<lparr>attributes = [(''position'', FLOAT_VECTOR (map (\<lambda>p. [a p, b p, c p]) data))],
          edges = [], faces = []\<rparr>"
  by (simp add: from_pydata_def)

lemma add_color_attribute_rows:
  "add_color_attribute rename data
     \<lparr>attributes = [(''position'', FLOAT_VECTOR (map (\<lambda>p. [via_python_float (pt_x p),
          via_python_float (pt_y p), via_python_float (pt_z p)]) data))],
      edges = [], faces = []\<rparr>
   = Inr \<lparr>attributes = take 2 (point_cloud_attributes data), edges = [], faces = []\<rparr>"
  by (simp add: Let_def add_color_attribute_def attributes_new_def free_name_def vertex_count_def
      attr_len_def colors_rows foreach_set_color_def length_concat_rows4 chunks4_concat
      set_attribute_def point_cloud_attributes_def)

lemma add_velocity_attributes_rows:
  "add_velocity_attributes rename
     [(''vx'', map pt_vx data), (''vy'', map pt_vy data), (''vz'', map pt_vz data)]
     \<lparr>attributes = take 2 (point_cloud_attributes data), edges = [], faces = []\<rparr>
   = Inr \<lparr>attributes = point_cloud_attributes data, edges = [], faces = []\<rparr>"
  by (simp add: Let_def attributes_new_def free_name_def vertex_count_def
      attr_len_def foreach_set_value_def set_attribute_def point_cloud_attributes_def)

lemma remove_existing_objects: "objects (remove_existing h) = (objects h)(''PointCloud'' := None)"
  by (auto simp: remove_existing_def objects_remove_def)

lemma remove_existing_meshes: "meshes (remove_existing h) = meshes h"
  by (simp add: remove_existing_def objects_remove_def)

lemma free_name_free: "\<not> used name \<Longrightarrow> free_name rename name used = name"
  by (simp add: free_name_def)

lemma build_point_cloud_result:
  assumes "objects h ''PointCloud'' = None" and "data \<noteq> []"
  shows "build_point_cloud rename data h = (Inr (), imported_scene rename data h)"
  using assms
  by (simp add: build_point_cloud_def Let_def meshes_new_def objects_new_def free_name_free
      collection_link_def then_do_def positions_rows tolist_rows on_mesh_def from_pydata_rows
      add_color_attribute_rows add_velocity_attributes_rows imported_scene_def new_mesh_name_def
      del: add_velocity_attributes.simps)

lemma imported_scene_remove_existing:
  "imported_scene rename data (remove_existing h) = imported_scene rename data h"
  by (simp add: imported_scene_def new_mesh_name_def remove_existing_def objects_remove_def)

lemma import_script_result:
  assumes "header_end fb = Some he" and "np_fromfile fb he \<noteq> []"
  shows "import_script rename (Some fb) h = Some (Inr (), imported_scene rename (np_fromfile fb he) h)"
  using assms
  by (simp add: import_script_def Let_def build_point_cloud_result remove_existing_objects
      imported_scene_remove_existing)

lemma build_point_cloud_empty: "build_point_cloud rename [] h = (Inl IndexError, h)"
  by (simp add: build_point_cloud_def)

lemma import_script_success_iff:
  "import_script rename content h = Some (Inr (), h') \<longleftrightarrow>
     (\<exists>fb he. content = Some fb \<and> header_end fb = Some he \<and> np_fromfile fb he \<noteq> []
               \<and> h' = imported_scene rename (np_fromfile fb he) h)"
proof (cases content)
  case None
  then show ?thesis by (simp add: import_script_def)
next
  case (Some fb)
  show ?thesis
  proof (cases "header_end fb")
    case None
    with Some show ?thesis by (simp add: import_script_def)
  next
    case he: (Some he)
    show ?thesis
    proof (cases "np_fromfile fb he = []")
      case True
      with Some he show ?thesis
        by (simp add: import_script_def build_point_cloud_empty)
    next
      case False
      from import_script_result [OF he False, of rename h] Some he False show ?thesis
        by auto
    qed
  qed
qed

lemma sample_file_parse: "np_fromfile sample_file 47 = sample_points"
  using np_fromfile_encode [of ply_header sample_points]
  by (simp add: sample_file_def length_ply_header)

lemma via_python_float_number: "\<not> is_nan_f4 w \<Longrightarrow> via_python_float w = w"
  by (simp add: via_python_float_def)

lemma via_python_float_nan: "is_nan_f4 (via_python_float w) = is_nan_f4 w"
proof (cases "is_nan_f4 w")
  case False
  then show ?thesis by (simp add: via_python_float_def)
next
  case True
  then have e: "w AND 0x7F800000 = 0x7F800000" by (simp add: is_nan_f4_def)
  have "(w OR 0x00400000) AND 0x7F800000 = (w AND 0x7F800000) OR (0x00400000 AND 0x7F800000)"
    by (simp add: bit.conj_disj_distrib2)
  then have 1: "(w OR 0x00400000) AND 0x7F800000 = 0x7F800000"
    using e by simp
  have "(w OR 0x00400000) AND 0x007FFFFF = (w AND 0x007FFFFF) OR (0x00400000 AND 0x007FFFFF)"
    by (simp add: bit.conj_disj_distrib2)
  then have 2: "(w OR 0x00400000) AND 0x007FFFFF \<noteq> 0"
    by (simp add: or_eq_0_iff)
  from True 1 2 show ?thesis
    by (simp add: via_python_float_def is_nan_f4_def)
qed

lemma via_python_float_idem: "via_python_float (via_python_float w) = via_python_float w"
  by (cases "is_nan_f4 w") (simp_all add: via_python_float_def or.assoc via_python_float_nan [unfolded via_python_float_def, of w])

lemma via_python_float_samples:
  "via_python_float 0x3F800000 = 0x3F800000"
  "via_python_float 0x7F800000 = 0x7F800000"
  "via_python_float 0x7FA00001 = 0x7FE00001"
  "via_python_float 0xFF800001 = 0xFFC00001"
  "via_python_float 0x7FC00000 = 0x7FC00000"
  by (simp_all add: via_python_float_def is_nan_f4_def)

lemma sample_positions:
  "map_of (point_cloud_attributes sample_points) ''position''
   = Some (FLOAT_VECTOR [[0x3F800000, 0x40000000, 0x40400000],
                         [0x40800000, 0x40A00000, 0x40C00000],
                         [0x40E00000, 0x41000000, 0x41100000]])"
  by (simp add: point_cloud_attributes_def sample_points_def via_python_float_def is_nan_f4_def)

text \<open>
  A file with signalling NaNs as coordinates imports, and the position entry holds
  them quiet; the velocity entry, which does not pass through Python floats, keeps
  its bits.
\<close>

lemma import_quiets_signalling_nan:
  "import_script rename (Some (ply_header @ concat (map spec_encode_point nan_points))) h
     = Some (Inr (), imported_scene rename nan_points h)
   \<and> map_of (point_cloud_attributes nan_points) ''position''
       = Some (FLOAT_VECTOR [[0x7FE00001, 0xFFC00001, 0x7F800000]])
   \<and> map_of (point_cloud_attributes nan_points) ''vx'' = Some (FLOAT [0x7FA00001])"
proof -
  let ?fb = "ply_header @ concat (map spec_encode_point nan_points)"
  have h: "header_end ?fb = Some 47"
    by (rule header_end_ply_header)
  have d: "np_fromfile ?fb 47 = nan_points"
    using np_fromfile_encode [of ply_header nan_points] by (simp add: length_ply_header)
  have ne: "np_fromfile ?fb 47 \<noteq> []"
    unfolding d by (simp add: nan_points_def)
  from import_script_result [OF h ne, of rename h] d
  have "import_script rename (Some ?fb) h = Some (Inr (), imported_scene rename nan_points h)"
    by simp
  then show ?thesis
    by (simp add: point_cloud_attributes_def nan_points_def via_python_float_def is_nan_f4_def)
qed

text \<open>
  C6. An import succeeds exactly when the file opens, its header scan returns and at
  least one record is read, and then the scene it leaves is \<open>imported_scene\<close> of the
  records read. The script first removes the object named PointCloud, so that no
  object has that name when the new one is made (the meshes are left as they are).
  The scene it leaves differs from the one it found in the object store only at the
  name PointCloud, which is now the one new object, linked to the scene and carrying
  the new mesh; this mesh has no edges and no faces and exactly the position attribute
  and the custom attributes color, vx, vy and vz, each with one entry per record,
  entry \<open>i\<close> made from record \<open>i\<close>. A coordinate of a position entry is the record's
  coordinate after its way through a Python float: the same bits when it is a number
  or an infinity, and a NaN when it is a NaN.
\<close>

theorem import_builds_one_point_cloud_object:
  "(import_script rename content h = Some (Inr (), h') \<longleftrightarrow>
      (\<exists>fb he. content = Some fb \<and> header_end fb = Some he \<and> np_fromfile fb he \<noteq> []
                \<and> h' = imported_scene rename (np_fromfile fb he) h))
   \<and> objects (remove_existing h) ''PointCloud'' = None
   \<and> meshes (remove_existing h) = meshes h
   \<and> objects (imported_scene rename data h)
       = (objects h)(''PointCloud'' \<mapsto> \<lparr>ob_data = new_mesh_name rename h, ob_linked = True\<rparr>)
   \<and> meshes (imported_scene rename data h) (new_mesh_name rename h)
       = Some \<lparr>attributes = point_cloud_attributes data, edges = [], faces = []\<rparr>
   \<and> map fst (point_cloud_attributes data) = [''position'', ''color'', ''vx'', ''vy'', ''vz'']
   \<and> map (attr_len \<circ> snd) (point_cloud_attributes data) = replicate 5 (length data)
   \<and> (\<not> is_nan_f4 w \<longrightarrow> via_python_float w = w)
   \<and> is_nan_f4 (via_python_float w) = is_nan_f4 w"
proof (intro conjI)
  show "import_script rename content h = Some (Inr (), h') \<longleftrightarrow>
      (\<exists>fb he. content = Some fb \<and> header_end fb = Some he \<and> np_fromfile fb he \<noteq> []
                \<and> h' = imported_scene rename (np_fromfile fb he) h)"
    by (rule import_script_success_iff)
  show "objects (remove_existing h) ''PointCloud'' = None"
    by (simp add: remove_existing_objects)
  show "meshes (remove_existing h) = meshes h"
    by (rule remove_existing_meshes)
  show "objects (imported_scene rename data h)
        = (objects h)(''PointCloud'' \<mapsto> \<lparr>ob_data = new_mesh_name rename h, ob_linked = True\<rparr>)"
    by (simp add: imported_scene_def)
  show "meshes (imported_scene rename data h) (new_mesh_name rename h)
        = Some \<lparr>attributes = point_cloud_attributes data, edges = [], faces = []\<rparr>"
    by (simp add: imported_scene_def)
  show "map fst (point_cloud_attributes data) = [''position'', ''color'', ''vx'', ''vy'', ''vz'']"
    by (simp add: point_cloud_attributes_def)
  show "map (attr_len \<circ> snd) (point_cloud_attributes data) = replicate 5 (length data)"
    by (simp add: point_cloud_attributes_def attr_len_def numeral_eq_Suc)
  show "\<not> is_nan_f4 w \<longrightarrow> via_python_float w = w"
    by (simp add: via_python_float_number)
  show "is_nan_f4 (via_python_float w) = is_nan_f4 w"
    by (rule via_python_float_nan)
qed

theorem import_builds_one_point_cloud_object_witness:
  "header_end sample_file = Some 47
   \<and> np_fromfile sample_file 47 = sample_points
   \<and> length sample_points = 3
   \<and> objects sample_host ''PointCloud'' = Some \<lparr>ob_data = ''PointCloudMesh'', ob_linked = True\<rparr>
   \<and> objects (remove_existing sample_host) ''PointCloud'' = None
   \<and> import_script sample_rename (Some sample_file) sample_host
       = Some (Inr (), imported_scene sample_rename sample_points sample_host)
   \<and> new_mesh_name sample_rename sample_host = ''PointCloudMesh.001''
   \<and> objects (imported_scene sample_rename sample_points sample_host) ''PointCloud''
       = Some \<lparr>ob_data = ''PointCloudMesh.001'', ob_linked = True\<rparr>
   \<and> objects (imported_scene sample_rename sample_points sample_host) ''Camera''
       = objects sample_host ''Camera''
   \<and> meshes (imported_scene sample_rename sample_points sample_host) ''PointCloudMesh.001''
       = Some \<lparr>attributes = point_cloud_attributes sample_points, edges = [], faces = []\<rparr>
   \<and> map (attr_len \<circ> snd) (point_cloud_attributes sample_points) = [3, 3, 3, 3, 3]
   \<and> map_of (point_cloud_attributes sample_points) ''position''
       = Some (FLOAT_VECTOR [[0x3F800000, 0x40000000, 0x40400000],
                             [0x40800000, 0x40A00000, 0x40C00000],
                             [0x40E00000, 0x41000000, 0x41100000]])
   \<and> \<not> is_nan_f4 0x3F800000 \<and> via_python_float 0x3F800000 = 0x3F800000
   \<and> via_python_float 0x7FA00001 = 0x7FE00001
   \<and> is_nan_f4 0x7FA00001 \<and> is_nan_f4 (via_python_float 0x7FA00001)"
proof -
  have h: "header_end sample_file = Some 47"
    by (simp add: sample_file_def header_end_ply_header)
  have ne: "sample_points \<noteq> []"
    by (simp add: sample_points_def)
  have nm: "new_mesh_name sample_rename sample_host = ''PointCloudMesh.001''"
    by (simp add: new_mesh_name_def free_name_def sample_rename_def sample_host_def)
  have len: "length sample_points = 3"
    by (simp add: sample_points_def)
  have ob: "objects sample_host ''PointCloud'' = Some \<lparr>ob_data = ''PointCloudMesh'', ob_linked = True\<rparr>"
    by (simp add: sample_host_def)
  have nan: "\<not> is_nan_f4 0x3F800000" "is_nan_f4 0x7FA00001"
    by (simp_all add: is_nan_f4_def)
  from import_builds_one_point_cloud_object
    [of sample_rename "Some sample_file" sample_host
        "imported_scene sample_rename sample_points sample_host" sample_points "0x3F800000"]
  have 1: "import_script sample_rename (Some sample_file) sample_host
             = Some (Inr (), imported_scene sample_rename sample_points sample_host)
           \<and> objects (remove_existing sample_host) ''PointCloud'' = None
           \<and> objects (imported_scene sample_rename sample_points sample_host) ''PointCloud''
               = Some \<lparr>ob_data = ''PointCloudMesh.001'', ob_linked = True\<rparr>
           \<and> objects (imported_scene sample_rename sample_points sample_host) ''Camera''
               = objects sample_host ''Camera''
           \<and> meshes (imported_scene sample_rename sample_points sample_host) ''PointCloudMesh.001''
               = Some \<lparr>attributes = point_cloud_attributes sample_points, edges = [], faces = []\<rparr>
           \<and> map (attr_len \<circ> snd) (point_cloud_attributes sample_points) = [3, 3, 3, 3, 3]
           \<and> via_python_float 0x3F800000 = 0x3F800000"
    using h sample_file_parse ne nm len ob nan(1) by (simp add: numeral_eq_Suc)
  from import_builds_one_point_cloud_object
    [of sample_rename "Some sample_file" sample_host
        "imported_scene sample_rename sample_points sample_host" sample_points "0x7FA00001"]
  have 2: "is_nan_f4 (via_python_float 0x7FA00001)"
    using nan(2) by simp
  from 1 2 h sample_file_parse len ob nm nan sample_positions via_python_float_samples(3)
  show ?thesis
    by (intro conjI) (erule conjE | assumption | simp only:)+
qed

section \<open>Properties of the inspector\<close>

lemma inspector_run:
  assumes "2 \<le> length argv"
    and "(if 2 < length argv then int_of_str lib (argv ! 2) else Some 5) = Some num_line"
    and "PlyData_read lib (argv ! 1) = Inr ply"
    and "ply ''vertex'' = Some (dtype, data)"
  shows "inspector lib argv
         = (preamble lib (argv ! 1) dtype num_line
              @ map (\<lambda>v. Print (str_of_record lib v)) (slice_to num_line data), Finished)"
  using assms by (simp add: inspector_def preamble_def Let_def split: if_splits)

lemma sample_read:
  "PlyData_read sample_library ''ten.ply''
   = Inr [''vertex'' \<mapsto> (''dtype'', [0, 1, 2, 3, 4, 5, 6, 7, 8, 9])]"
  by (simp add: sample_library_def)

lemma sample_int_of_str_values:
  "int_of_str sample_library ''2'' = Some 2"
  "int_of_str sample_library ''50'' = Some 50"
  "int_of_str sample_library ''0'' = Some 0"
  "int_of_str sample_library ''-1'' = Some (- 1)"
  "int_of_str sample_library ''two'' = None"
  by (simp_all add: sample_library_def sample_int_of_str_def digit_value_def)

lemma sample_str_of_record:
  "map (str_of_record sample_library) [0, 1, 2, 3, 4, 5, 6, 7, 8, 9]
   = [''v0'', ''v1'', ''v2'', ''v3'', ''v4'', ''v5'', ''v6'', ''v7'', ''v8'', ''v9'']"
  by code_simp

text \<open>
  C7. Invoked without a filename argument, the inspector prints the usage message,
  nothing else, and exits with a status that is not zero.
\<close>

theorem inspector_usage:
  assumes "length argv < 2"
  shows "\<exists>status. status \<noteq> 0 \<and> inspector lib argv = ([Print usage], Exit status)"
  using assms by (simp add: inspector_def)

theorem inspector_usage_witness:
  "length [''plyreaed.py''] < 2
   \<and> inspector sample_library [''plyreaed.py'']
       = ([Print ''Usage: python read_ply.py <filename> [num_lines]''], Exit 1)"
  using inspector_usage [of "[''plyreaed.py'']" sample_library]
  by (auto simp: usage_def inspector_def)

text \<open>
  C8. For a file that parses to a vertex element and a requested count \<open>N\<close> that is
  not negative, 5 when the second argument is absent, the inspector prints, after the
  lines of its preamble, one line for each of the first \<open>N\<close> records, in file order,
  and runs to its end.
\<close>

theorem inspector_prints_first_records:
  assumes "2 \<le> length argv"
    and "(if 2 < length argv then int_of_str lib (argv ! 2) else Some 5) = Some N"
    and "0 \<le> N"
    and "PlyData_read lib (argv ! 1) = Inr ply"
    and "ply ''vertex'' = Some (dtype, data)"
  shows "inspector lib argv
         = (preamble lib (argv ! 1) dtype N
              @ map (\<lambda>v. Print (str_of_record lib v)) (take (nat N) data), Finished)"
  using inspector_run [OF assms(1,2,4,5)] assms(3) by (simp add: slice_to_def)

theorem inspector_prints_first_records_witness:
  "inspector sample_library [''plyreaed.py'', ''ten.ply'', ''2'']
     = (preamble sample_library ''ten.ply'' ''dtype'' 2 @ [Print ''v0'', Print ''v1''], Finished)
   \<and> inspector sample_library [''plyreaed.py'', ''ten.ply'']
     = (preamble sample_library ''ten.ply'' ''dtype'' 5
          @ [Print ''v0'', Print ''v1'', Print ''v2'', Print ''v3'', Print ''v4''], Finished)"
proof -
  let ?ply = "[''vertex'' \<mapsto> (''dtype'', [0, 1, 2, 3, 4, 5, 6, 7, 8, 9 :: nat])]"
  let ?data = "[0, 1, 2, 3, 4, 5, 6, 7, 8, 9 :: nat]"
  have "inspector sample_library [''plyreaed.py'', ''ten.ply'', ''2'']
        = (preamble sample_library ''ten.ply'' ''dtype'' 2
             @ map (\<lambda>v. Print (str_of_record sample_library v)) (take (nat 2) ?data), Finished)"
    using inspector_prints_first_records
      [where argv = "[''plyreaed.py'', ''ten.ply'', ''2'']" and lib = sample_library and N = 2
         and ply = ?ply and dtype = "''dtype''" and data = ?data]
    by (simp add: sample_int_of_str_values sample_read)
  moreover have "inspector sample_library [''plyreaed.py'', ''ten.ply'']
        = (preamble sample_library ''ten.ply'' ''dtype'' 5
             @ map (\<lambda>v. Print (str_of_record sample_library v)) (take (nat 5) ?data), Finished)"
    using inspector_prints_first_records
      [where argv = "[''plyreaed.py'', ''ten.ply'']" and lib = sample_library and N = 5
         and ply = ?ply and dtype = "''dtype''" and data = ?data]
    by (simp add: sample_read)
  moreover note sample_str_of_record
  ultimately show ?thesis
    by (simp add: numeral_eq_Suc)
qed

text \<open>
  C9. With a second argument that \<^verbatim>\<open>int\<close> does not accept, the inspector ends with the
  uncaught ValueError before anything is printed and before the file is opened. With
  one that \<^verbatim>\<open>int\<close> accepts, whatever its sign, the run goes on to the slice of the
  records: nothing checks that the count is positive. A count of zero gives no record
  line, and a negative count \<open>-k\<close> gives all records but the last \<open>k\<close>.
\<close>

theorem inspector_count_not_validated:
  assumes "2 < length argv"
  shows "(int_of_str lib (argv ! 2) = None \<longrightarrow> inspector lib argv = ([], Raised ValueError))
         \<and> (\<forall>N ply dtype data.
               int_of_str lib (argv ! 2) = Some N \<and> PlyData_read lib (argv ! 1) = Inr ply
               \<and> ply ''vertex'' = Some (dtype, data) \<longrightarrow>
               inspector lib argv
               = (preamble lib (argv ! 1) dtype N
                    @ map (\<lambda>v. Print (str_of_record lib v)) (slice_to N data), Finished)
               \<and> (N = 0 \<longrightarrow> slice_to N data = [])
               \<and> (N < 0 \<longrightarrow> slice_to N data = take (length data - nat (- N)) data))"
proof (intro conjI impI allI)
  assume "int_of_str lib (argv ! 2) = None"
  with assms show "inspector lib argv = ([], Raised ValueError)"
    by (simp add: inspector_def)
next
  fix N ply dtype data
  assume a: "int_of_str lib (argv ! 2) = Some N \<and> PlyData_read lib (argv ! 1) = Inr ply
             \<and> ply ''vertex'' = Some (dtype, data)"
  from assms have "2 \<le> length argv" by simp
  from inspector_run [OF this, of lib N ply dtype data] assms a
  show "inspector lib argv
        = (preamble lib (argv ! 1) dtype N
             @ map (\<lambda>v. Print (str_of_record lib v)) (slice_to N data), Finished)"
    by simp
next
  fix N :: int and data :: "'b list"
  assume "N = 0"
  then show "slice_to N data = []"
    by (simp add: slice_to_def)
next
  fix N :: int and data :: "'b list"
  assume n: "N < 0"
  then have "nat (int (length data) + N) = length data - nat (- N)"
    by arith
  with n show "slice_to N data = take (length data - nat (- N)) data"
    by (simp add: slice_to_def)
qed

theorem inspector_count_not_validated_witness:
  "inspector sample_library [''plyreaed.py'', ''ten.ply'', ''two''] = ([], Raised ValueError)
   \<and> inspector sample_library [''plyreaed.py'', ''ten.ply'', ''0'']
       = (preamble sample_library ''ten.ply'' ''dtype'' 0, Finished)
   \<and> inspector sample_library [''plyreaed.py'', ''ten.ply'', ''-1'']
       = (preamble sample_library ''ten.ply'' ''dtype'' (- 1)
            @ [Print ''v0'', Print ''v1'', Print ''v2'', Print ''v3'', Print ''v4'', Print ''v5'',
               Print ''v6'', Print ''v7'', Print ''v8''], Finished)"
proof -
  let ?ply = "[''vertex'' \<mapsto> (''dtype'', [0, 1, 2, 3, 4, 5, 6, 7, 8, 9 :: nat])]"
  let ?data = "[0, 1, 2, 3, 4, 5, 6, 7, 8, 9 :: nat]"
  have 1: "inspector sample_library [''plyreaed.py'', ''ten.ply'', ''two''] = ([], Raised ValueError)"
    using inspector_count_not_validated
      [where argv = "[''plyreaed.py'', ''ten.ply'', ''two'']" and lib = sample_library]
    by (simp add: sample_int_of_str_values)
  have 2: "inspector sample_library [''plyreaed.py'', ''ten.ply'', ''0'']
           = (preamble sample_library ''ten.ply'' ''dtype'' 0
                @ map (\<lambda>v. Print (str_of_record sample_library v)) (slice_to 0 ?data), Finished)"
    using inspector_count_not_validated
      [where argv = "[''plyreaed.py'', ''ten.ply'', ''0'']" and lib = sample_library]
    by (simp add: sample_int_of_str_values sample_read)
  have 3: "inspector sample_library [''plyreaed.py'', ''ten.ply'', ''-1'']
           = (preamble sample_library ''ten.ply'' ''dtype'' (- 1)
                @ map (\<lambda>v. Print (str_of_record sample_library v)) (slice_to (- 1) ?data), Finished)"
    using inspector_count_not_validated
      [where argv = "[''plyreaed.py'', ''ten.ply'', ''-1'']" and lib = sample_library]
    by (simp add: sample_int_of_str_values sample_read)
  from 1 2 3 sample_str_of_record show ?thesis
    by (simp add: slice_to_def numeral_eq_Suc)
qed

text \<open>
  C10. For a file that parses to \<open>n\<close> records and a requested count greater than \<open>n\<close>,
  the inspector prints exactly the \<open>n\<close> record lines, in file order, and runs to its
  end: no error is raised.
\<close>

theorem inspector_oversized_count_clamps:
  assumes "2 \<le> length argv"
    and "(if 2 < length argv then int_of_str lib (argv ! 2) else Some 5) = Some N"
    and "int (length data) < N"
    and "PlyData_read lib (argv ! 1) = Inr ply"
    and "ply ''vertex'' = Some (dtype, data)"
  shows "inspector lib argv
         = (preamble lib (argv ! 1) dtype N @ map (\<lambda>v. Print (str_of_record lib v)) data, Finished)
         \<and> length (map (\<lambda>v. Print (str_of_record lib v)) data) = length data"
  using inspector_run [OF assms(1,2,4,5)] assms(3) by (simp add: slice_to_def)

theorem inspector_oversized_count_clamps_witness:
  "inspector sample_library [''plyreaed.py'', ''ten.ply'', ''50'']
     = (preamble sample_library ''ten.ply'' ''dtype'' 50
          @ [Print ''v0'', Print ''v1'', Print ''v2'', Print ''v3'', Print ''v4'', Print ''v5'',
             Print ''v6'', Print ''v7'', Print ''v8'', Print ''v9''], Finished)"
proof -
  let ?ply = "[''vertex'' \<mapsto> (''dtype'', [0, 1, 2, 3, 4, 5, 6, 7, 8, 9 :: nat])]"
  let ?data = "[0, 1, 2, 3, 4, 5, 6, 7, 8, 9 :: nat]"
  have "inspector sample_library [''plyreaed.py'', ''ten.ply'', ''50'']
        = (preamble sample_library ''ten.ply'' ''dtype'' 50
             @ map (\<lambda>v. Print (str_of_record sample_library v)) ?data, Finished)"
    using inspector_oversized_count_clamps
      [where argv = "[''plyreaed.py'', ''ten.ply'', ''50'']" and lib = sample_library and N = 50
         and ply = ?ply and dtype = "''dtype''" and data = ?data]
    by (simp add: sample_int_of_str_values sample_read)
  with sample_str_of_record show ?thesis
    by simp
qed

end
